theory Spec2Isabelle
  imports Complex_Main
begin

section \<open>JavaScript values and exceptions\<close>

text \<open>
  The value that \<^verbatim>\<open>await request.json()\<close> resolves to is a JSON-decoded JavaScript
  value. An object lists its own properties (after decoding, every key occurs once).
  Of a number only its truthiness is ever inspected by the handler; it is carried as a
  rational. Strings are character lists.
\<close>

datatype jsval =
    JNull
  | JBool bool
  | JNum rat
  | JStr string
  | JArr "jsval list"
  | JObj "(string \<times> jsval) list"

text \<open>
  A thrown value: an \<^verbatim>\<open>Error\<close> instance with its \<^verbatim>\<open>message\<close>, or any other value
  with its \<^verbatim>\<open>String(...)\<close> rendering. The \<^verbatim>\<open>TypeError\<close>s raised by the engine are
  \<^verbatim>\<open>Error\<close> instances; their message wording is the engine's, fixed here by three
  constants.
\<close>

datatype exn = JsError string | JsThrown string

text \<open>\<^verbatim>\<open>e instanceof Error ? e.message : String(e)\<close>\<close>

fun err_text :: "exn \<Rightarrow> string" where
  "err_text (JsError m) = m"
| "err_text (JsThrown s) = s"

definition null_property_error :: exn where
  "null_property_error = JsError ''Cannot read properties of null''"

definition not_iterable_error :: exn where
  "not_iterable_error = JsError ''parsedPayload.value is not iterable''"

definition not_primitive_error :: exn where
  "not_primitive_error = JsError ''Cannot convert object to primitive value''"

text \<open>Truthiness, as tested by \<^verbatim>\<open>if (v)\<close>, \<^verbatim>\<open>!v\<close> and \<^verbatim>\<open>a && b\<close>.\<close>

fun truthy :: "jsval \<Rightarrow> bool" where
  "truthy JNull = False"
| "truthy (JBool b) = b"
| "truthy (JNum n) = (n \<noteq> 0)"
| "truthy (JStr s) = (s \<noteq> [])"
| "truthy (JArr xs) = True"
| "truthy (JObj kvs) = True"

text \<open>A property read that found nothing yields \<^verbatim>\<open>undefined\<close>, here \<open>None\<close>, which is falsy.\<close>

fun truthy_opt :: "jsval option \<Rightarrow> bool" where
  "truthy_opt None = False"
| "truthy_opt (Some v) = truthy v"

text \<open>A value of type \<^verbatim>\<open>string | null | undefined\<close>: truthy when present and non-empty.\<close>

fun truthy_str :: "string option \<Rightarrow> bool" where
  "truthy_str None = False"
| "truthy_str (Some s) = (s \<noteq> [])"

text \<open>
  The property read \<^verbatim>\<open>v.k\<close> for the keys the handler reads (\<^verbatim>\<open>value\<close>,
  \<^verbatim>\<open>subscriptionId\<close>, \<^verbatim>\<open>resource\<close>, \<^verbatim>\<open>siteUrl\<close>, \<^verbatim>\<open>changeType\<close>; none of them is
  on a built-in prototype): it throws on \<^verbatim>\<open>null\<close>, finds an own property of an object,
  and is \<^verbatim>\<open>undefined\<close> on everything else.
\<close>

fun get_prop :: "jsval \<Rightarrow> string \<Rightarrow> exn + jsval option" where
  "get_prop JNull k = Inl null_property_error"
| "get_prop (JObj kvs) k = Inr (map_of kvs k)"
| "get_prop v k = Inr None"

text \<open>
  Whether converting a value to a string inside a template literal throws. An object
  with an own \<^verbatim>\<open>toString\<close> property (never callable in decoded JSON) cannot be
  converted; an array is joined, converting each element.
\<close>

fun to_string_throws :: "jsval \<Rightarrow> bool" where
  "to_string_throws (JArr xs) = (\<exists>x \<in> set xs. to_string_throws x)"
| "to_string_throws (JObj kvs) = (''toString'' \<in> fst ` set kvs)"
| "to_string_throws v = False"

fun interpolation_throws :: "jsval option \<Rightarrow> bool" where
  "interpolation_throws None = False"
| "interpolation_throws (Some v) = to_string_throws v"

text \<open>
  What \<^verbatim>\<open>for (const x of v)\<close> iterates over: the elements of an array, the characters
  of a string; every other value (and \<^verbatim>\<open>undefined\<close>) is not iterable.
\<close>

fun iterate :: "jsval option \<Rightarrow> exn + jsval list" where
  "iterate (Some (JArr xs)) = Inr xs"
| "iterate (Some (JStr s)) = Inr (map (\<lambda>c. JStr [c]) s)"
| "iterate v = Inl not_iterable_error"

section \<open>Messages, log lines and observable calls\<close>

text \<open>
  A \<^verbatim>\<open>ServiceBusMessage\<close> as the handler builds it. Its fields are \<^verbatim>\<open>body\<close> and
  \<^verbatim>\<open>contentType\<close>; the first is named \<open>msg_body\<close> here, \<open>body\<close> being the response's.
\<close>

record ServiceBusMessage =
  msg_body :: jsval
  contentType :: string

datatype level = LOG | WARN | ERROR

text \<open>
  One constructor for each \<^verbatim>\<open>context.log\<close>, \<^verbatim>\<open>context.warn\<close> and \<^verbatim>\<open>context.error\<close>
  call of the source, carrying the values the call interpolates.
\<close>

datatype logmsg =
    Processed string string
  | ValidationPost string
  | JsonParseError string
  | RawPayload string
  | RawPayloadUnreadable exn
  | PayloadEmptyOrMalformed
  | ReceivedNotifications jsval
  | ProcessingNotification "jsval option" "jsval option" "jsval option"
  | ChangeTypeFound "jsval option"
  | ChangeTypeMissing jsval
  | EnvNotSet
  | ValidationGet string
  | GetWithoutToken
  | UnsupportedMethod string
  | HandlerError string
  | SbAttempt nat string
  | SbSent nat string
  | SbSendFailed string string
  | SbClosed
  | SbCloseError string

text \<open>The calls made on the request body, on the publisher and on the queue SDK.\<close>

datatype event =
    RequestJson
  | RequestText
  | SendMessages "ServiceBusMessage list"
  | NewServiceBusClient string
  | CreateSender string
  | SenderSendMessages "ServiceBusMessage list"
  | SenderClose
  | ClientClose

record world =
  logs :: "(level \<times> logmsg) list"
  trace :: "event list"

definition context_log :: "level \<Rightarrow> logmsg \<Rightarrow> world \<Rightarrow> world" where
  "context_log l m w = w\<lparr>logs := logs w @ [(l, m)]\<rparr>"

definition emit :: "event \<Rightarrow> world \<Rightarrow> world" where
  "emit e w = w\<lparr>trace := trace w @ [e]\<rparr>"

section \<open>The queue publisher (serviceBusService.ts)\<close>

record AzureServiceBusService =
  connectionString :: string
  queueName :: string

text \<open>The constructor. An absent argument (\<^verbatim>\<open>undefined\<close>) is \<open>None\<close>.\<close>

fun new_AzureServiceBusService ::
  "string option \<Rightarrow> string option \<Rightarrow> exn + AzureServiceBusService" where
  "new_AzureServiceBusService None q =
     Inl (JsError ''Service Bus connection string is required.'')"
| "new_AzureServiceBusService (Some c) None =
     (if c = [] then Inl (JsError ''Service Bus connection string is required.'')
      else Inl (JsError ''Service Bus queue name is required.''))"
| "new_AzureServiceBusService (Some c) (Some q) =
     (if c = [] then Inl (JsError ''Service Bus connection string is required.'')
      else if q = [] then Inl (JsError ''Service Bus queue name is required.'')
      else Inr \<lparr>connectionString = c, queueName = q\<rparr>)"

text \<open>
  The \<^verbatim>\<open>@azure/service-bus\<close> SDK is outside the repository: the outcome of each of its
  calls is a parameter, \<open>None\<close> when the call returns and \<open>Some e\<close> when it throws \<open>e\<close>.
\<close>

record ServiceBus =
  newServiceBusClient :: "string \<Rightarrow> exn option"
  createSender :: "string \<Rightarrow> exn option"
  senderSendMessages :: "ServiceBusMessage list \<Rightarrow> exn option"
  senderClose :: "exn option"
  clientClose :: "exn option"

text \<open>The \<^verbatim>\<open>finally\<close> block of \<^verbatim>\<open>sendMessages\<close>: both closes sit in one \<^verbatim>\<open>try\<close>.\<close>

definition release :: "ServiceBus \<Rightarrow> world \<Rightarrow> world" where
  "release sdk w =
     (let w1 = emit SenderClose w in
      case senderClose sdk of
        Some e \<Rightarrow> context_log ERROR (SbCloseError (err_text e)) w1
      | None \<Rightarrow>
          (let w2 = emit ClientClose w1 in
           case clientClose sdk of
             Some e \<Rightarrow> context_log ERROR (SbCloseError (err_text e)) w2
           | None \<Rightarrow> context_log LOG SbClosed w2))"

text \<open>
  \<^verbatim>\<open>AzureServiceBusService.sendMessages\<close>: the result is \<open>None\<close> when the promise
  resolves and \<open>Some e\<close> when it rejects with \<open>e\<close>. Client and sender are created
  before the \<^verbatim>\<open>try\<close>.
\<close>

definition sendMessages ::
  "ServiceBus \<Rightarrow> AzureServiceBusService \<Rightarrow> ServiceBusMessage list \<Rightarrow> world
     \<Rightarrow> exn option \<times> world" where
  "sendMessages sdk this messages w =
     (let w1 = emit (NewServiceBusClient (connectionString this)) w in
      case newServiceBusClient sdk (connectionString this) of
        Some e \<Rightarrow> (Some e, w1)
      | None \<Rightarrow>
          (let w2 = emit (CreateSender (queueName this)) w1 in
           case createSender sdk (queueName this) of
             Some e \<Rightarrow> (Some e, w2)
           | None \<Rightarrow>
               (let w3 = context_log LOG (SbAttempt (length messages) (queueName this)) w2;
                    w4 = emit (SenderSendMessages messages) w3
                in case senderSendMessages sdk messages of
                     None \<Rightarrow>
                       (None,
                        release sdk
                          (context_log LOG (SbSent (length messages) (queueName this)) w4))
                   | Some e \<Rightarrow>
                       (Some e,
                        release sdk
                          (context_log ERROR
                             (SbSendFailed (queueName this) (err_text e)) w4)))))"

text \<open>
  An \<^verbatim>\<open>IServiceBusService\<close> injected by a caller: given the messages, the lines it
  logs on the context and whether its promise rejects.
\<close>

type_synonym IServiceBusService =
  "ServiceBusMessage list \<Rightarrow> (level \<times> logmsg) list \<times> exn option"

datatype sbService = Override IServiceBusService | Azure AzureServiceBusService

text \<open>The call \<^verbatim>\<open>sbService.sendMessages(messagesToSend, context)\<close>.\<close>

definition call_sendMessages ::
  "ServiceBus \<Rightarrow> sbService \<Rightarrow> ServiceBusMessage list \<Rightarrow> world \<Rightarrow> exn option \<times> world" where
  "call_sendMessages sdk svc messages w =
     (let w1 = emit (SendMessages messages) w in
      case svc of
        Override f \<Rightarrow> (snd (f messages), w1\<lparr>logs := logs w1 @ fst (f messages)\<rparr>)
      | Azure this \<Rightarrow> sendMessages sdk this messages w1)"

section \<open>The webhook handler\<close>

text \<open>
  The request as the handler sees it: \<open>http_method\<close> is \<^verbatim>\<open>request.method\<close>;
  \<open>validationtoken\<close> is what \<^verbatim>\<open>request.query.get('validationtoken')\<close> returns
  (\<open>None\<close> for \<^verbatim>\<open>null\<close>); \<open>json_result\<close> and \<open>text_result\<close> are the outcomes of
  \<^verbatim>\<open>await request.json()\<close> and \<^verbatim>\<open>await request.text()\<close>, \<open>Inl e\<close> when the call
  throws \<open>e\<close>.
\<close>

record HttpRequest =
  url :: string
  http_method :: string
  validationtoken :: "string option"
  json_result :: "exn + jsval"
  text_result :: "exn + string"

record HttpResponseInit =
  status :: nat
  headers :: "(string \<times> string) list"
  body :: string

text \<open>The two variables read from \<^verbatim>\<open>process.env\<close>.\<close>

record env =
  SERVICE_BUS_CONNECTION_STRING :: "string option"
  SERVICE_BUS_QUEUE_NAME :: "string option"

text \<open>The body of the \<^verbatim>\<open>for\<close> loop: the message pushed for one notification.\<close>

definition process_notification ::
  "jsval \<Rightarrow> world \<Rightarrow> (exn + ServiceBusMessage) \<times> world" where
  "process_notification notification w =
     (case get_prop notification ''subscriptionId'' of
        Inl e \<Rightarrow> (Inl e, w)
      | Inr subscriptionId \<Rightarrow>
     (case get_prop notification ''resource'' of
        Inl e \<Rightarrow> (Inl e, w)
      | Inr resource \<Rightarrow>
     (case get_prop notification ''siteUrl'' of
        Inl e \<Rightarrow> (Inl e, w)
      | Inr siteUrl \<Rightarrow>
          if interpolation_throws subscriptionId \<or> interpolation_throws resource
               \<or> interpolation_throws siteUrl
          then (Inl not_primitive_error, w)
          else
            (let w1 = context_log LOG
                        (ProcessingNotification subscriptionId resource siteUrl) w
             in case get_prop notification ''changeType'' of
                  Inl e \<Rightarrow> (Inl e, w1)
                | Inr changeType \<Rightarrow>
                    if truthy_opt changeType then
                      (if interpolation_throws changeType then (Inl not_primitive_error, w1)
                       else (Inr \<lparr>msg_body = notification, contentType = ''application/json''\<rparr>,
                             context_log LOG (ChangeTypeFound changeType) w1))
                    else (Inr \<lparr>msg_body = notification, contentType = ''application/json''\<rparr>,
                          context_log WARN (ChangeTypeMissing notification) w1)))))"

text \<open>The loop over \<^verbatim>\<open>parsedPayload.value\<close>, pushing onto \<^verbatim>\<open>messagesToSend\<close>.\<close>

fun notification_loop ::
  "jsval list \<Rightarrow> ServiceBusMessage list \<Rightarrow> world
     \<Rightarrow> (exn + ServiceBusMessage list) \<times> world" where
  "notification_loop [] messagesToSend w = (Inr messagesToSend, w)"
| "notification_loop (notification # rest) messagesToSend w =
     (case process_notification notification w of
        (Inl e, w') \<Rightarrow> (Inl e, w')
      | (Inr m, w') \<Rightarrow> notification_loop rest (messagesToSend @ [m]) w')"

definition acknowledged :: HttpResponseInit where
  "acknowledged =
     \<lparr>status = 202, headers = [],
      body = ''Notification acknowledged and queued for processing.''\<rparr>"

text \<open>The branch of a POST without a (truthy) validation token.\<close>

definition notification_request ::
  "HttpRequest \<Rightarrow> env \<Rightarrow> ServiceBus \<Rightarrow> IServiceBusService option \<Rightarrow> world
     \<Rightarrow> (exn + HttpResponseInit) \<times> world" where
  "notification_request request ev sdk serviceBusServiceOverride w =
     (let wj = emit RequestJson w in
      case json_result request of
        Inl e \<Rightarrow>
          (let w1 = context_log ERROR (JsonParseError (err_text e)) wj;
               w2 = emit RequestText w1;
               w3 = (case text_result request of
                       Inr rawPayloadForError \<Rightarrow>
                         context_log LOG (RawPayload rawPayloadForError) w2
                     | Inl textError \<Rightarrow>
                         context_log ERROR (RawPayloadUnreadable textError) w2)
           in (Inr \<lparr>status = 400, headers = [],
                    body = ''Invalid JSON payload for notification.''\<rparr>, w3))
      | Inr parsedPayload \<Rightarrow>
          if \<not> truthy parsedPayload then
            (Inr \<lparr>status = 400, headers = [],
                  body = ''Notification payload is empty or malformed.''\<rparr>,
             context_log LOG PayloadEmptyOrMalformed wj)
          else
            (let w1 = context_log LOG (ReceivedNotifications parsedPayload) wj;
                 connectionString = SERVICE_BUS_CONNECTION_STRING ev;
                 queueName = SERVICE_BUS_QUEUE_NAME ev
             in if truthy_str connectionString \<and> truthy_str queueName then
                  (case (case serviceBusServiceOverride of
                           Some f \<Rightarrow> Inr (Override f)
                         | None \<Rightarrow>
                             map_sum id Azure
                               (new_AzureServiceBusService connectionString queueName)) of
                     Inl e \<Rightarrow> (Inl e, w1)
                   | Inr sbService \<Rightarrow>
                  (case get_prop parsedPayload ''value'' of
                     Inl e \<Rightarrow> (Inl e, w1)
                   | Inr v \<Rightarrow>
                  (case iterate v of
                     Inl e \<Rightarrow> (Inl e, w1)
                   | Inr notifications \<Rightarrow>
                  (case notification_loop notifications [] w1 of
                     (Inl e, w2) \<Rightarrow> (Inl e, w2)
                   | (Inr messagesToSend, w2) \<Rightarrow>
                       if length messagesToSend > 0
                       then (Inr acknowledged,
                             snd (call_sendMessages sdk sbService messagesToSend w2))
                       else (Inr acknowledged, w2)))))
                else (Inr acknowledged, context_log WARN EnvNotSet w1)))"

definition validation_echo :: "string \<Rightarrow> HttpResponseInit" where
  "validation_echo token =
     \<lparr>status = 200, headers = [(''Content-Type'', ''text/plain'')], body = token\<rparr>"

text \<open>The body of the outer \<^verbatim>\<open>try\<close>: \<open>Inl e\<close> when \<open>e\<close> reaches the outer \<^verbatim>\<open>catch\<close>.\<close>

definition handler_try ::
  "HttpRequest \<Rightarrow> env \<Rightarrow> ServiceBus \<Rightarrow> IServiceBusService option \<Rightarrow> world
     \<Rightarrow> (exn + HttpResponseInit) \<times> world" where
  "handler_try request ev sdk serviceBusServiceOverride w =
     (if http_method request = ''POST'' then
        (case validationtoken request of
           None \<Rightarrow> notification_request request ev sdk serviceBusServiceOverride w
         | Some validationTokenFromQuery \<Rightarrow>
             if validationTokenFromQuery \<noteq> [] then
               (Inr (validation_echo validationTokenFromQuery),
                context_log LOG (ValidationPost validationTokenFromQuery) w)
             else notification_request request ev sdk serviceBusServiceOverride w)
      else if http_method request = ''GET'' then
        (case validationtoken request of
           None \<Rightarrow>
             (Inr \<lparr>status = 405, headers = [],
                   body = ''SharePoint webhooks use POST. Validation: POST with 'validationtoken' in query. Notifications: POST with payload in body.''\<rparr>,
              context_log LOG GetWithoutToken w)
         | Some validationTokenFromQueryForGET \<Rightarrow>
             if validationTokenFromQueryForGET \<noteq> [] then
               (Inr (validation_echo validationTokenFromQueryForGET),
                context_log LOG (ValidationGet validationTokenFromQueryForGET) w)
             else
               (Inr \<lparr>status = 405, headers = [],
                     body = ''SharePoint webhooks use POST. Validation: POST with 'validationtoken' in query. Notifications: POST with payload in body.''\<rparr>,
                context_log LOG GetWithoutToken w))
      else
        (Inr \<lparr>status = 405, headers = [],
              body = ''Method '' @ http_method request @ '' not allowed or not handled.''\<rparr>,
         context_log LOG (UnsupportedMethod (http_method request)) w))"

text \<open>
  \<^verbatim>\<open>actualValidateTokenHandler\<close>: the response and everything the invocation logged
  and called. \<^verbatim>\<open>process.env\<close> and the SDK are parameters.
\<close>

definition actualValidateTokenHandler ::
  "HttpRequest \<Rightarrow> env \<Rightarrow> ServiceBus \<Rightarrow> IServiceBusService option
     \<Rightarrow> HttpResponseInit \<times> world" where
  "actualValidateTokenHandler request ev sdk serviceBusServiceOverride =
     (let w0 = context_log LOG (Processed (url request) (http_method request))
                 \<lparr>logs = [], trace = []\<rparr>
      in case handler_try request ev sdk serviceBusServiceOverride w0 of
           (Inr response, w) \<Rightarrow> (response, w)
         | (Inl error, w) \<Rightarrow>
             (\<lparr>status = 500, headers = [],
               body = ''An internal error occurred while processing the request.''\<rparr>,
              context_log ERROR (HandlerError (err_text error)) w))"

definition validateTokenHandler ::
  "HttpRequest \<Rightarrow> env \<Rightarrow> ServiceBus \<Rightarrow> HttpResponseInit \<times> world" where
  "validateTokenHandler request ev sdk = actualValidateTokenHandler request ev sdk None"

section \<open>Well-formed notification batches\<close>

text \<open>
  \<^verbatim>\<open>SharePointNotification\<close> is a flat object whose fields are strings (any of them
  may be missing); \<^verbatim>\<open>SharePointNotificationPayload\<close> is an object whose \<^verbatim>\<open>value\<close> is
  an array of them.
\<close>

fun is_string :: "jsval \<Rightarrow> bool" where
  "is_string (JStr s) = True"
| "is_string v = False"

fun is_notification :: "jsval \<Rightarrow> bool" where
  "is_notification (JObj kvs) = list_all (\<lambda>kv. is_string (snd kv)) kvs"
| "is_notification v = False"

fun batch_of :: "jsval \<Rightarrow> jsval list option" where
  "batch_of (JObj kvs) =
     (case map_of kvs ''value'' of
        Some (JArr ns) \<Rightarrow> if list_all is_notification ns then Some ns else None
      | _ \<Rightarrow> None)"
| "batch_of v = None"

text \<open>The message built from one notification.\<close>

definition to_message :: "jsval \<Rightarrow> ServiceBusMessage" where
  "to_message notification = \<lparr>msg_body = notification, contentType = ''application/json''\<rparr>"

section \<open>Example inputs\<close>

text \<open>SDK calls that return, and SDK calls that throw a given value.\<close>

definition returns :: "'a \<Rightarrow> exn option" where
  "returns x = None"

definition throws :: "exn \<Rightarrow> 'a \<Rightarrow> exn option" where
  "throws e x = Some e"

text \<open>An SDK on which every call returns; the examples below override single calls.\<close>

definition sdk_ok :: ServiceBus where
  "sdk_ok = \<lparr>newServiceBusClient = returns, createSender = returns,
             senderSendMessages = returns, senderClose = None, clientClose = None\<rparr>"

text \<open>The notification of the specification's example request, and one without \<^verbatim>\<open>changeType\<close>.\<close>

definition example_notification :: jsval where
  "example_notification =
     JObj [(''subscriptionId'', JStr ''s1''), (''resource'', JStr ''r1''),
           (''expirationDateTime'', JStr ''2030-01-01T00:00:00Z''),
           (''tenantId'', JStr ''t1''), (''siteUrl'', JStr ''/sites/x''),
           (''webId'', JStr ''w1''), (''changeType'', JStr ''added'')]"


definition example_payload :: jsval where
  "example_payload = JObj [(''value'', JArr [example_notification])]"

text \<open>A POST without a validation token whose body decodes, or fails to decode, as given.\<close>

definition notification_post :: "exn + jsval \<Rightarrow> exn + string \<Rightarrow> HttpRequest" where
  "notification_post j t =
     \<lparr>url = ''https://example/api/tokenEndpoint'', http_method = ''POST'',
      validationtoken = None, json_result = j, text_result = t\<rparr>"

text \<open>A request carrying a validation token.\<close>

definition validation_request :: "string \<Rightarrow> string \<Rightarrow> exn + jsval \<Rightarrow> HttpRequest" where
  "validation_request m token j =
     \<lparr>url = ''https://example/api/tokenEndpoint'', http_method = m,
      validationtoken = Some token, json_result = j, text_result = Inr []\<rparr>"

definition configured :: env where
  "configured = \<lparr>SERVICE_BUS_CONNECTION_STRING = Some ''Endpoint=sb://example/'',
                 SERVICE_BUS_QUEUE_NAME = Some ''notifications''\<rparr>"

definition unconfigured :: env where
  "unconfigured = \<lparr>SERVICE_BUS_CONNECTION_STRING = None, SERVICE_BUS_QUEUE_NAME = None\<rparr>"

section \<open>Facts about logging and the notification loop\<close>

lemma string_field_no_throw:
  assumes "list_all (\<lambda>kv. is_string (snd kv)) kvs"
  shows "\<not> interpolation_throws (map_of kvs k)"
proof (cases "map_of kvs k")
  case None
  then show ?thesis by simp
next
  case (Some v)
  then have "(k, v) \<in> set kvs" by (rule map_of_SomeD)
  with assms have "is_string v" by (auto simp: list_all_iff)
  then obtain s where "v = JStr s" by (cases v) auto
  with Some show ?thesis by simp
qed

lemma process_notification_ok:
  assumes "is_notification n"
  shows "fst (process_notification n w) = Inr (to_message n)"
    and "trace (snd (process_notification n w)) = trace w"
proof -
  from assms obtain kvs where n: "n = JObj kvs"
    and kvs: "list_all (\<lambda>kv. is_string (snd kv)) kvs"
    by (cases n) auto
  note nt = string_field_no_throw [OF kvs]
  show "fst (process_notification n w) = Inr (to_message n)"
    by (simp add: n process_notification_def nt to_message_def Let_def)
  show "trace (snd (process_notification n w)) = trace w"
    by (simp add: n process_notification_def nt Let_def context_log_def)
qed

lemma notification_loop_ok:
  "list_all is_notification ns \<Longrightarrow>
     fst (notification_loop ns acc w) = Inr (acc @ map to_message ns)
     \<and> trace (snd (notification_loop ns acc w)) = trace w"
proof (induction ns arbitrary: acc w)
  case Nil
  then show ?case by simp
next
  case (Cons n ns)
  then have n: "is_notification n" and ns: "list_all is_notification ns" by simp_all
  obtain r w' where p: "process_notification n w = (r, w')"
    by (cases "process_notification n w")
  with process_notification_ok [OF n, of w]
  have r: "r = Inr (to_message n)" and t: "trace w' = trace w"
    by simp_all
  from Cons.IH [OF ns, of "acc @ [to_message n]" w'] show ?case
    by (simp add: p r t)
qed

lemma batch_ofD:
  assumes "batch_of p = Some ns"
  shows "truthy p" and "get_prop p ''value'' = Inr (Some (JArr ns))"
    and "list_all is_notification ns"
proof -
  from assms obtain kvs where p: "p = JObj kvs" by (cases p) auto
  from assms p have v: "map_of kvs ''value'' = Some (JArr ns) \<and> list_all is_notification ns"
    by (auto split: option.splits jsval.splits if_splits)
  show "truthy p" by (simp add: p)
  show "get_prop p ''value'' = Inr (Some (JArr ns))" by (simp add: p v)
  show "list_all is_notification ns" by (simp add: v)
qed

lemma truthy_coordinates:
  assumes "truthy_str cs" and "truthy_str qn"
  shows "\<exists>c q. cs = Some c \<and> qn = Some q \<and> c \<noteq> [] \<and> q \<noteq> []"
  using assms by (cases cs; cases qn) auto

section \<open>Facts about the notification branch\<close>

lemma notification_request_configured:
  assumes j: "json_result rq = Inr p" and b: "batch_of p = Some ns"
    and c: "SERVICE_BUS_CONNECTION_STRING ev = Some c" "c \<noteq> []"
    and q: "SERVICE_BUS_QUEUE_NAME ev = Some q" "q \<noteq> []"
  shows "notification_request rq ev sdk ov w =
           (Inr acknowledged,
            (let w2 = snd (notification_loop ns []
                        (context_log LOG (ReceivedNotifications p) (emit RequestJson w)))
             in if ns = [] then w2
                else snd (call_sendMessages sdk
                       (case ov of Some f \<Rightarrow> Override f
                        | None \<Rightarrow> Azure \<lparr>connectionString = c, queueName = q\<rparr>)
                       (map to_message ns) w2)))"
proof -
  note d = batch_ofD [OF b]
  define w1 where "w1 = context_log LOG (ReceivedNotifications p) (emit RequestJson w)"
  obtain r w2 where l: "notification_loop ns [] w1 = (r, w2)"
    by (cases "notification_loop ns [] w1")
  with notification_loop_ok [OF d(3), of "[]" w1] have r: "r = Inr (map to_message ns)"
    by simp
  show ?thesis
    using l r
    by (cases ov) (simp_all add: notification_request_def j d c q Let_def w1_def [symmetric])
qed

lemma notification_request_unconfigured:
  assumes j: "json_result rq = Inr p" and t: "truthy p"
    and c: "\<not> (truthy_str (SERVICE_BUS_CONNECTION_STRING ev)
                \<and> truthy_str (SERVICE_BUS_QUEUE_NAME ev))"
  shows "notification_request rq ev sdk ov w =
           (Inr acknowledged,
            context_log WARN EnvNotSet
              (context_log LOG (ReceivedNotifications p) (emit RequestJson w)))"
  using c by (auto simp add: notification_request_def j t Let_def)

lemma handler_post_no_token:
  assumes "http_method rq = ''POST''" and "\<not> truthy_str (validationtoken rq)"
  shows "handler_try rq ev sdk ov w = notification_request rq ev sdk ov w"
  using assms by (cases "validationtoken rq") (simp_all add: handler_try_def)

section \<open>The validation handshake\<close>

text \<open>
  C1. For every non-empty string \<open>V\<close>, a GET or POST request whose query carries
  \<^verbatim>\<open>validationtoken=V\<close> is answered with status 200, the header
  \<^verbatim>\<open>Content-Type: text/plain\<close> and a body that is exactly \<open>V\<close>, whatever the rest of
  the request, the environment and the publisher are.
\<close>

theorem validation_token_echoed:
  assumes "http_method rq = ''GET'' \<or> http_method rq = ''POST''"
    and "validationtoken rq = Some V" and "V \<noteq> []"
  shows "fst (actualValidateTokenHandler rq ev sdk ov) =
           \<lparr>status = 200, headers = [(''Content-Type'', ''text/plain'')], body = V\<rparr>"
  using assms
  by (auto simp add: actualValidateTokenHandler_def handler_try_def validation_echo_def Let_def)

theorem validation_token_echoed_witness:
  "fst (actualValidateTokenHandler
          (validation_request ''GET'' ''a b&c=d%20'' (Inl (JsError ''no body'')))
          unconfigured sdk_ok None)
     = \<lparr>status = 200, headers = [(''Content-Type'', ''text/plain'')], body = ''a b&c=d%20''\<rparr>
   \<and> fst (actualValidateTokenHandler
          (validation_request ''POST'' '' tok en '' (Inr example_payload))
          configured sdk_ok None)
     = \<lparr>status = 200, headers = [(''Content-Type'', ''text/plain'')], body = '' tok en ''\<rparr>"
  using validation_token_echoed
          [of "validation_request ''GET'' ''a b&c=d%20'' (Inl (JsError ''no body''))"
              "''a b&c=d%20''" unconfigured sdk_ok None]
        validation_token_echoed
          [of "validation_request ''POST'' '' tok en '' (Inr example_payload)"
              "'' tok en ''" configured sdk_ok None]
  by (simp add: validation_request_def)

text \<open>
  C10. A POST carrying a non-empty validation token is answered without the request
  body being read or parsed: no call is made on the body (nor on the publisher), and two
  such requests that differ only in their bodies, whether well-formed, malformed or
  unreadable, produce the same response and the same log.
\<close>

theorem validation_ignores_body:
  assumes "http_method rq = ''POST''" and "http_method rq' = ''POST''"
    and "validationtoken rq = Some V" and "validationtoken rq' = Some V" and "V \<noteq> []"
    and "url rq' = url rq"
  shows "actualValidateTokenHandler rq' ev sdk ov = actualValidateTokenHandler rq ev sdk ov
         \<and> fst (actualValidateTokenHandler rq ev sdk ov) = validation_echo V
         \<and> status (fst (actualValidateTokenHandler rq ev sdk ov)) = 200
         \<and> trace (snd (actualValidateTokenHandler rq ev sdk ov)) = []"
  using assms
  by (simp add: actualValidateTokenHandler_def handler_try_def Let_def context_log_def
        validation_echo_def)

theorem validation_ignores_body_witness:
  "actualValidateTokenHandler
      (validation_request ''POST'' ''t0k3n'' (Inl (JsError ''Unexpected token'')))
      configured sdk_ok None
     = actualValidateTokenHandler
         (validation_request ''POST'' ''t0k3n'' (Inr example_payload)) configured sdk_ok None
   \<and> status (fst (actualValidateTokenHandler
         (validation_request ''POST'' ''t0k3n'' (Inr example_payload)) configured sdk_ok None))
       = 200
   \<and> trace (snd (actualValidateTokenHandler
         (validation_request ''POST'' ''t0k3n'' (Inr example_payload)) configured sdk_ok None))
       = []"
  using validation_ignores_body
          [of "validation_request ''POST'' ''t0k3n'' (Inr example_payload)"
              "validation_request ''POST'' ''t0k3n'' (Inl (JsError ''Unexpected token''))"
              "''t0k3n''" configured sdk_ok None]
  by (simp add: validation_request_def validation_echo_def)

section \<open>Notification intake\<close>

text \<open>
  C6. A POST without a validation token whose body cannot be decoded as JSON is
  answered with status 400 and the invalid-JSON reason, and the parse error is logged;
  whatever the later attempt to read the raw body for the log does (return a text or
  throw), the response is the same.
\<close>

theorem invalid_json_bad_request:
  assumes "http_method rq = ''POST''" and "\<not> truthy_str (validationtoken rq)"
    and "json_result rq = Inl e"
  shows "fst (actualValidateTokenHandler (rq\<lparr>text_result := t\<rparr>) ev sdk ov) =
           \<lparr>status = 400, headers = [], body = ''Invalid JSON payload for notification.''\<rparr>
         \<and> (ERROR, JsonParseError (err_text e))
             \<in> set (logs (snd (actualValidateTokenHandler (rq\<lparr>text_result := t\<rparr>) ev sdk ov)))"
proof -
  have "handler_try (rq\<lparr>text_result := t\<rparr>) ev sdk ov w
          = notification_request (rq\<lparr>text_result := t\<rparr>) ev sdk ov w" for w
    using assms(1,2) by (intro handler_post_no_token) simp_all
  then show ?thesis
    using assms(3)
    by (simp add: actualValidateTokenHandler_def notification_request_def
          Let_def context_log_def emit_def split: sum.splits)
qed

theorem invalid_json_bad_request_witness:
  "fst (actualValidateTokenHandler
          (notification_post (Inl (JsError ''Unexpected token o in JSON''))
             (Inl (JsError ''Body is unusable'')))
          configured sdk_ok None) =
     \<lparr>status = 400, headers = [], body = ''Invalid JSON payload for notification.''\<rparr>
   \<and> fst (actualValidateTokenHandler
          (notification_post (Inl (JsError ''Unexpected token o in JSON'')) (Inr ''not-json''))
          configured sdk_ok None) =
     \<lparr>status = 400, headers = [], body = ''Invalid JSON payload for notification.''\<rparr>"
  using invalid_json_bad_request
          [of "notification_post (Inl (JsError ''Unexpected token o in JSON'')) (Inr [])"
              "JsError ''Unexpected token o in JSON''" "Inl (JsError ''Body is unusable'')"
              configured sdk_ok None]
        invalid_json_bad_request
          [of "notification_post (Inl (JsError ''Unexpected token o in JSON'')) (Inr [])"
              "JsError ''Unexpected token o in JSON''" "Inr ''not-json''"
              configured sdk_ok None]
  by (simp add: notification_post_def)

text \<open>
  C3. A POST without a validation token whose body decodes as JSON to a value without a
  top-level \<^verbatim>\<open>value\<close> collection should be answered with status 400. The handler only
  tests the decoded value for truthiness: for the body \<^verbatim>\<open>{}\<close> it answers 500 when the
  queue is configured (iterating the missing field throws) and 202 when it is not; in
  neither case 400.
\<close>

theorem missing_value_field_not_rejected:
  "status (fst (actualValidateTokenHandler
             (notification_post (Inr (JObj [])) (Inr ''{}'')) configured sdk_ok None)) = 500
   \<and> status (fst (actualValidateTokenHandler
             (notification_post (Inr (JObj [])) (Inr ''{}'')) unconfigured sdk_ok None)) = 202"
  by (simp add: actualValidateTokenHandler_def handler_try_def notification_request_def
        notification_post_def configured_def unconfigured_def
        Let_def acknowledged_def not_iterable_error_def)



text \<open>
  C5. A POST without a validation token whose body is \<^verbatim>\<open>{"value":[]}\<close> is answered
  with status 202, and the publisher's \<^verbatim>\<open>sendMessages\<close> is never called: the only call
  the invocation makes is the read of the body.
\<close>

theorem empty_batch_never_published:
  assumes "http_method rq = ''POST''" and "\<not> truthy_str (validationtoken rq)"
    and "json_result rq = Inr (JObj [(''value'', JArr [])])"
  shows "status (fst (actualValidateTokenHandler rq ev sdk ov)) = 202
         \<and> SendMessages ms \<notin> set (trace (snd (actualValidateTokenHandler rq ev sdk ov)))
         \<and> trace (snd (actualValidateTokenHandler rq ev sdk ov)) = [RequestJson]"
proof (cases "truthy_str (SERVICE_BUS_CONNECTION_STRING ev)
                \<and> truthy_str (SERVICE_BUS_QUEUE_NAME ev)")
  case True
  then obtain c q where cq: "SERVICE_BUS_CONNECTION_STRING ev = Some c" "c \<noteq> []"
      "SERVICE_BUS_QUEUE_NAME ev = Some q" "q \<noteq> []"
    using truthy_coordinates by blast
  have b: "batch_of (JObj [(''value'', JArr [])]) = Some []" by simp
  show ?thesis
    using assms(1,2) notification_request_configured [OF assms(3) b cq, of sdk ov]
    by (simp add: actualValidateTokenHandler_def handler_post_no_token Let_def
          context_log_def emit_def acknowledged_def)
next
  case False
  have t: "truthy (JObj [(''value'', JArr [])])" by simp
  show ?thesis
    using assms(1,2) notification_request_unconfigured [OF assms(3) t False, of sdk ov]
    by (simp add: actualValidateTokenHandler_def handler_post_no_token Let_def
          context_log_def emit_def acknowledged_def)
qed

theorem empty_batch_never_published_witness:
  "status (fst (actualValidateTokenHandler
             (notification_post (Inr (JObj [(''value'', JArr [])])) (Inr []))
             configured sdk_ok None)) = 202
   \<and> trace (snd (actualValidateTokenHandler
             (notification_post (Inr (JObj [(''value'', JArr [])])) (Inr []))
             configured sdk_ok None)) = [RequestJson]"
  using empty_batch_never_published
          [of "notification_post (Inr (JObj [(''value'', JArr [])])) (Inr [])"
              configured sdk_ok None]
  by (simp add: notification_post_def)

text \<open>
  C7. A POST without a validation token whose body decodes to a notification batch,
  received while the connection string or the queue name is absent (or empty), is
  answered with status 202; a warning is logged and no publish is attempted: neither
  the publisher nor the SDK is called.
\<close>

theorem unconfigured_queue_acknowledged:
  assumes "http_method rq = ''POST''" and "\<not> truthy_str (validationtoken rq)"
    and "json_result rq = Inr p" and "batch_of p = Some ns"
    and "\<not> (truthy_str (SERVICE_BUS_CONNECTION_STRING ev)
             \<and> truthy_str (SERVICE_BUS_QUEUE_NAME ev))"
  shows "fst (actualValidateTokenHandler rq ev sdk ov) = acknowledged
         \<and> status (fst (actualValidateTokenHandler rq ev sdk ov)) = 202
         \<and> (WARN, EnvNotSet) \<in> set (logs (snd (actualValidateTokenHandler rq ev sdk ov)))
         \<and> SendMessages ms \<notin> set (trace (snd (actualValidateTokenHandler rq ev sdk ov)))
         \<and> trace (snd (actualValidateTokenHandler rq ev sdk ov)) = [RequestJson]"
  using assms(1,2)
    notification_request_unconfigured [OF assms(3) batch_ofD(1) [OF assms(4)] assms(5)]
  by (simp add: actualValidateTokenHandler_def handler_post_no_token
        Let_def context_log_def emit_def acknowledged_def)

theorem unconfigured_queue_acknowledged_witness:
  "batch_of example_payload = Some [example_notification]
   \<and> status (fst (actualValidateTokenHandler
             (notification_post (Inr example_payload) (Inr [])) unconfigured sdk_ok None)) = 202
   \<and> (WARN, EnvNotSet)
       \<in> set (logs (snd (actualValidateTokenHandler
             (notification_post (Inr example_payload) (Inr [])) unconfigured sdk_ok None)))
   \<and> trace (snd (actualValidateTokenHandler
             (notification_post (Inr example_payload) (Inr [])) unconfigured sdk_ok None))
       = [RequestJson]"
  using unconfigured_queue_acknowledged
          [of "notification_post (Inr example_payload) (Inr [])" example_payload
              "[example_notification]" unconfigured sdk_ok None]
  by (simp add: notification_post_def example_payload_def example_notification_def
        unconfigured_def acknowledged_def)

text \<open>
  C2. With both destination coordinates set and a notification batch to publish, a
  failing publish call should leave the response at 202 and the failure in the log. The
  response is 202 on every path, but the publisher creates client and sender before its
  \<^verbatim>\<open>try\<close>: when \<^verbatim>\<open>new ServiceBusClient\<close> or \<^verbatim>\<open>createSender\<close> throws, the publish call
  fails, the handler swallows the error and no error line is logged at all. Only a
  failure of the SDK's own send is logged.
\<close>

theorem publisher_creation_failure_not_logged:
  "status (fst (actualValidateTokenHandler (notification_post (Inr example_payload) (Inr []))
          configured (sdk_ok\<lparr>newServiceBusClient := throws (JsError ''bad connection string'')\<rparr>)
          None)) = 202
   \<and> ERROR \<notin> set (map fst (logs (snd (actualValidateTokenHandler
          (notification_post (Inr example_payload) (Inr []))
          configured (sdk_ok\<lparr>newServiceBusClient := throws (JsError ''bad connection string'')\<rparr>)
          None))))
   \<and> trace (snd (actualValidateTokenHandler
          (notification_post (Inr example_payload) (Inr []))
          configured (sdk_ok\<lparr>newServiceBusClient := throws (JsError ''bad connection string'')\<rparr>)
          None))
       = [RequestJson, SendMessages [to_message example_notification],
          NewServiceBusClient ''Endpoint=sb://example/'']
   \<and> status (fst (actualValidateTokenHandler (notification_post (Inr example_payload) (Inr []))
          configured (sdk_ok\<lparr>createSender := throws (JsError ''no such queue'')\<rparr>)
          None)) = 202
   \<and> ERROR \<notin> set (map fst (logs (snd (actualValidateTokenHandler
          (notification_post (Inr example_payload) (Inr []))
          configured (sdk_ok\<lparr>createSender := throws (JsError ''no such queue'')\<rparr>)
          None))))
   \<and> status (fst (actualValidateTokenHandler (notification_post (Inr example_payload) (Inr []))
          configured (sdk_ok\<lparr>senderSendMessages := throws (JsError ''queue unreachable'')\<rparr>)
          None)) = 202
   \<and> (ERROR, SbSendFailed ''notifications'' ''queue unreachable'')
       \<in> set (logs (snd (actualValidateTokenHandler
          (notification_post (Inr example_payload) (Inr []))
          configured (sdk_ok\<lparr>senderSendMessages := throws (JsError ''queue unreachable'')\<rparr>)
          None)))"
  by (simp add: actualValidateTokenHandler_def handler_try_def notification_request_def
        process_notification_def call_sendMessages_def sendMessages_def release_def
        notification_post_def example_payload_def example_notification_def configured_def
        sdk_ok_def returns_def throws_def to_message_def acknowledged_def
        context_log_def emit_def Let_def)

section \<open>The publisher\<close>

text \<open>
  C9. Constructing the publisher with an absent or empty connection string, or with an
  absent or empty queue name, throws at once (the constructor makes no call on the SDK);
  with both present and non-empty it returns the publisher holding them.
\<close>

theorem constructor_fails_fast:
  "(truthy_str cs \<and> truthy_str qn \<longrightarrow>
      (\<exists>c q. cs = Some c \<and> qn = Some q \<and> c \<noteq> [] \<and> q \<noteq> []
         \<and> new_AzureServiceBusService cs qn = Inr \<lparr>connectionString = c, queueName = q\<rparr>))
   \<and> (\<not> truthy_str cs \<longrightarrow>
        new_AzureServiceBusService cs qn
          = Inl (JsError ''Service Bus connection string is required.''))
   \<and> (truthy_str cs \<and> \<not> truthy_str qn \<longrightarrow>
        new_AzureServiceBusService cs qn = Inl (JsError ''Service Bus queue name is required.''))"
  by (cases cs; cases qn) auto

theorem constructor_fails_fast_witness:
  "new_AzureServiceBusService (Some ''Endpoint=sb://example/'') (Some ''notifications'')
     = Inr \<lparr>connectionString = ''Endpoint=sb://example/'', queueName = ''notifications''\<rparr>
   \<and> new_AzureServiceBusService (Some []) (Some ''notifications'')
     = Inl (JsError ''Service Bus connection string is required.'')
   \<and> new_AzureServiceBusService (Some ''Endpoint=sb://example/'') None
     = Inl (JsError ''Service Bus queue name is required.'')"
  using constructor_fails_fast [of "Some ''Endpoint=sb://example/''" "Some ''notifications''"]
        constructor_fails_fast [of "Some []" "Some ''notifications''"]
        constructor_fails_fast [of "Some ''Endpoint=sb://example/''" None]
  by simp

text \<open>
  C8. The publish operation should release its connection resources on every exit path
  and keep the outcome of the send. The outcome is kept, and after a failed send both
  closes run; but the two closes share one \<^verbatim>\<open>try\<close>, so when the sender's close throws
  the client's close is never attempted, and when \<^verbatim>\<open>createSender\<close> throws (before the
  \<^verbatim>\<open>try\<close>) nothing is closed and nothing is logged. On both paths the client is left
  open.
\<close>

theorem client_left_open_on_exit_paths:
  "fst (sendMessages (sdk_ok\<lparr>senderClose := Some (JsError ''close failed'')\<rparr>)
          \<lparr>connectionString = ''Endpoint=sb://example/'', queueName = ''notifications''\<rparr>
          [to_message example_notification] \<lparr>logs = [], trace = []\<rparr>) = None
   \<and> trace (snd (sendMessages (sdk_ok\<lparr>senderClose := Some (JsError ''close failed'')\<rparr>)
          \<lparr>connectionString = ''Endpoint=sb://example/'', queueName = ''notifications''\<rparr>
          [to_message example_notification] \<lparr>logs = [], trace = []\<rparr>))
       = [NewServiceBusClient ''Endpoint=sb://example/'', CreateSender ''notifications'',
          SenderSendMessages [to_message example_notification], SenderClose]
   \<and> fst (sendMessages (sdk_ok\<lparr>createSender := throws (JsError ''no such queue'')\<rparr>)
          \<lparr>connectionString = ''Endpoint=sb://example/'', queueName = ''notifications''\<rparr>
          [to_message example_notification] \<lparr>logs = [], trace = []\<rparr>)
       = Some (JsError ''no such queue'')
   \<and> snd (sendMessages (sdk_ok\<lparr>createSender := throws (JsError ''no such queue'')\<rparr>)
          \<lparr>connectionString = ''Endpoint=sb://example/'', queueName = ''notifications''\<rparr>
          [to_message example_notification] \<lparr>logs = [], trace = []\<rparr>)
       = \<lparr>logs = [],
          trace = [NewServiceBusClient ''Endpoint=sb://example/'',
                   CreateSender ''notifications'']\<rparr>
   \<and> fst (sendMessages
          (sdk_ok\<lparr>senderSendMessages := throws (JsError ''queue unreachable'')\<rparr>)
          \<lparr>connectionString = ''Endpoint=sb://example/'', queueName = ''notifications''\<rparr>
          [to_message example_notification] \<lparr>logs = [], trace = []\<rparr>)
       = Some (JsError ''queue unreachable'')
   \<and> trace (snd (sendMessages
          (sdk_ok\<lparr>senderSendMessages := throws (JsError ''queue unreachable'')\<rparr>)
          \<lparr>connectionString = ''Endpoint=sb://example/'', queueName = ''notifications''\<rparr>
          [to_message example_notification] \<lparr>logs = [], trace = []\<rparr>))
       = [NewServiceBusClient ''Endpoint=sb://example/'', CreateSender ''notifications'',
          SenderSendMessages [to_message example_notification], SenderClose, ClientClose]"
  by (simp add: sendMessages_def release_def Let_def emit_def context_log_def
        sdk_ok_def returns_def throws_def)

end
